theory Spec2Isabelle
  imports Main "HOL-Library.Sublist"
begin

section \<open>The Go library functions the package calls\<close>

text \<open>
  Strings are byte strings. The functions of \<^verbatim>\<open>strings\<close> and \<^verbatim>\<open>strconv\<close> that
  \<^verbatim>\<open>reader.go\<close> and \<^verbatim>\<open>writer.go\<close> call are written out here as the Go documentation
  describes them. \<^verbatim>\<open>TrimSpace\<close> is modelled on the six ASCII white space characters
  (tab, line feed, vertical tab, form feed, carriage return, space); the white space
  code points beyond ASCII are left aside.
\<close>

definition isSpace :: "char \<Rightarrow> bool" where
  "isSpace c = (c = CHR 0x09 \<or> c = CHR 0x0A \<or> c = CHR 0x0B \<or> c = CHR 0x0C
                \<or> c = CHR 0x0D \<or> c = CHR '' '')"

definition TrimSpace :: "string \<Rightarrow> string" where
  "TrimSpace s = rev (dropWhile isSpace (rev (dropWhile isSpace s)))"

text \<open>\<^verbatim>\<open>strings.Split(s, ",")\<close>: the pieces between the commas; one piece for a string
  without a comma, also for the empty string.\<close>

fun Split :: "string \<Rightarrow> string list" where
  "Split [] = [[]]"
| "Split (c # cs) =
     (if c = CHR '','' then [] # Split cs
      else (case Split cs of [] \<Rightarrow> [[c]] | p # ps \<Rightarrow> (c # p) # ps))"

definition HasPrefix :: "string \<Rightarrow> string \<Rightarrow> bool" where
  "HasPrefix s p = (take (length p) s = p)"

definition TrimPrefix :: "string \<Rightarrow> string \<Rightarrow> string" where
  "TrimPrefix s p = (if HasPrefix s p then drop (length p) s else s)"

datatype numerr = ErrSyntax | ErrRange

datatype error =
    EOF
  | ParseError string
  | ErrFieldCount
  | NumError string string numerr
  | NotAStruct
  | InvalidIndex string string error
  | SetFieldError string error
  | MarshalFieldError string error
  | UnsupportedFieldType string
  | HookError string
  | LibError string
  | SinkError string
  | ReflectPanic string

text \<open>
  \<^verbatim>\<open>EOF\<close> is \<^verbatim>\<open>io.EOF\<close>; \<^verbatim>\<open>ParseError\<close> and \<^verbatim>\<open>ErrFieldCount\<close> are the errors of
  \<^verbatim>\<open>encoding/csv\<close>; \<^verbatim>\<open>NumError fn input cause\<close> is \<^verbatim>\<open>strconv.NumError\<close>;
  \<^verbatim>\<open>NotAStruct\<close> is "generic type T must be a struct"; \<^verbatim>\<open>InvalidIndex idxStr field cause\<close>,
  \<^verbatim>\<open>SetFieldError field cause\<close> and \<^verbatim>\<open>MarshalFieldError field cause\<close> are the three
  \<^verbatim>\<open>fmt.Errorf\<close> wrappers; \<^verbatim>\<open>UnsupportedFieldType\<close> is "unsupported field type: %s";
  \<^verbatim>\<open>HookError\<close> is whatever a custom hook returns; \<^verbatim>\<open>LibError\<close> an error of
  \<^verbatim>\<open>time.Parse\<close> or \<^verbatim>\<open>strconv.ParseFloat\<close>; \<^verbatim>\<open>SinkError\<close> an error of the
  underlying writer. \<^verbatim>\<open>ReflectPanic\<close> is not a returned error but a panic of package
  \<^verbatim>\<open>reflect\<close>; it passes every caller unwrapped.
\<close>

definition digitVal :: "char \<Rightarrow> nat option" where
  "digitVal c = map_of (zip ''0123456789'' [0, 1, 2, 3, 4, 5, 6, 7, 8, 9]) c"

text \<open>The value of a string of decimal digits read after the accumulator \<open>acc\<close>;
  \<open>None\<close> when a character is not a digit.\<close>

fun parseDigits :: "nat \<Rightarrow> string \<Rightarrow> nat option" where
  "parseDigits acc [] = Some acc"
| "parseDigits acc (c # cs) =
     (case digitVal c of None \<Rightarrow> None | Some d \<Rightarrow> parseDigits (10 * acc + d) cs)"

text \<open>
  \<^verbatim>\<open>strconv.ParseInt(s, 10, 64)\<close>: an optional sign, then at least one decimal digit
  and nothing else; a value outside the 64-bit range is a range error. \<^verbatim>\<open>fn\<close> is the
  function name the error carries.
\<close>

definition parseInt64 :: "string \<Rightarrow> string \<Rightarrow> error + int" where
  "parseInt64 fn s =
     (let neg = (s \<noteq> [] \<and> hd s = CHR ''-'');
          ds = (if s \<noteq> [] \<and> (hd s = CHR ''-'' \<or> hd s = CHR ''+'') then tl s else s)
      in if ds = [] then Inl (NumError fn s ErrSyntax)
         else (case parseDigits 0 ds of
                 None \<Rightarrow> Inl (NumError fn s ErrSyntax)
               | Some n \<Rightarrow>
                   if neg then (if int n \<le> 2 ^ 63 then Inr (- int n) else Inl (NumError fn s ErrRange))
                   else (if int n < 2 ^ 63 then Inr (int n) else Inl (NumError fn s ErrRange))))"

text \<open>\<^verbatim>\<open>strconv.Atoi\<close>, with \<^verbatim>\<open>int\<close> of 64 bits.\<close>

definition Atoi :: "string \<Rightarrow> error + int" where
  "Atoi s = parseInt64 ''Atoi'' s"

definition ParseInt :: "string \<Rightarrow> error + int" where
  "ParseInt s = parseInt64 ''ParseInt'' s"

definition digitChar :: "nat \<Rightarrow> char" where
  "digitChar d = ''0123456789'' ! d"

fun digitsOf :: "nat \<Rightarrow> string" where
  "digitsOf n = (if n < 10 then [digitChar n] else digitsOf (n div 10) @ [digitChar (n mod 10)])"

declare digitsOf.simps [simp del]

definition FormatUint :: "nat \<Rightarrow> string" where
  "FormatUint n = digitsOf n"

definition FormatInt :: "int \<Rightarrow> string" where
  "FormatInt i = (if i < 0 then CHR ''-'' # digitsOf (nat (- i)) else digitsOf (nat i))"

definition ParseBool :: "string \<Rightarrow> error + bool" where
  "ParseBool s =
     (if s \<in> set [''1'', ''t'', ''T'', ''TRUE'', ''true'', ''True''] then Inr True
      else if s \<in> set [''0'', ''f'', ''F'', ''FALSE'', ''false'', ''False''] then Inr False
      else Inl (NumError ''ParseBool'' s ErrSyntax))"

definition FormatBool :: "bool \<Rightarrow> string" where
  "FormatBool b = (if b then ''true'' else ''false'')"

text \<open>The two's complement value an \<open>n\<close>-bit signed integer keeps of \<open>x\<close>:
  what \<^verbatim>\<open>reflect.Value.SetInt\<close> stores in a narrower field, and what \<^verbatim>\<open>maxIndex + 1\<close>
  is at the top of the range.\<close>

definition wrapInt :: "nat \<Rightarrow> int \<Rightarrow> int" where
  "wrapInt n x = (x + 2 ^ (n - 1)) mod 2 ^ n - 2 ^ (n - 1)"

section \<open>Types, values and struct fields as package reflect shows them\<close>

datatype kind =
    KBool | KInt | KInt8 | KInt16 | KInt32 | KInt64
  | KUint | KUint8 | KUint16 | KUint32 | KUint64
  | KFloat32 | KFloat64 | KString | KStruct | KOther

text \<open>
  A value of a field. Floating point numbers, times and the values of every other type
  are not interpreted: they are elements of a carrier \<open>'x\<close>, and the library functions
  on them are the parameters \<open>stdlib\<close> below.
\<close>

datatype 'x val =
    VString string | VInt int | VUint nat | VBool bool
  | VFloat 'x | VTime 'x | VOther 'x

record 'x stdlib =
  ParseFloat :: "string \<Rightarrow> error + 'x"
  FormatFloat :: "'x \<Rightarrow> string"
  toFloat32 :: "'x \<Rightarrow> 'x"
  ParseTime :: "string \<Rightarrow> error + 'x"
  FormatTime :: "'x \<Rightarrow> string"
  zeroFloat :: 'x
  zeroTime :: 'x

text \<open>
  A method a type may declare: none, one with a value receiver (then the type and the
  pointer to it both have it in their method sets), or one with a pointer receiver
  (then only the pointer type has it).
  \<^verbatim>\<open>UnmarshalCSV\<close> with a value receiver works on a copy and can only report an error;
  with a pointer receiver it yields the new value of the variable, or an error.
\<close>

datatype ('v, 'p) gomethod = NoMethod | ValueRecv 'v | PtrRecv 'p

record 'x gotype =
  typeName :: string
  typeKind :: kind
  UnmarshalCSV :: "('x val \<Rightarrow> string \<Rightarrow> error option, 'x val \<Rightarrow> string \<Rightarrow> error + 'x val) gomethod"
  MarshalCSV :: "('x val \<Rightarrow> error + string, 'x val \<Rightarrow> error + string) gomethod"
  zeroOther :: 'x

text \<open>\<^verbatim>\<open>field.Type() == reflect.TypeOf(time.Time{})\<close>: the identity of a type is modelled
  by its kind and its name with the package qualifier.\<close>

definition isTimeTime :: "'x gotype \<Rightarrow> bool" where
  "isTimeTime ty = (typeKind ty = KStruct \<and> typeName ty = ''time.Time'')"

text \<open>\<^verbatim>\<open>reflect.StructField\<close>: the name, the value of the \<^verbatim>\<open>csv\<close> key of the tag, and
  the type. \<^verbatim>\<open>Index[0]\<close> is the position in the declaration and is kept apart.\<close>

record 'x StructField =
  sfName :: string
  sfTag :: string
  sfType :: "'x gotype"

text \<open>The type parameter \<^verbatim>\<open>T\<close>: a struct type with its fields in declaration order, or
  a type of another kind.\<close>

datatype 'x rtype = StructT "'x StructField list" | NonStructT

text \<open>A field is exported when its name starts with an upper case letter (ASCII here).\<close>

definition isExported :: "string \<Rightarrow> bool" where
  "isExported n = (n \<noteq> [] \<and> hd n \<in> set ''ABCDEFGHIJKLMNOPQRSTUVWXYZ'')"

section \<open>The field order: the three passes of createFieldMap and createFieldInfo\<close>

text \<open>
  \<^verbatim>\<open>createFieldMap\<close> (reader) and \<^verbatim>\<open>createFieldInfo\<close> (writer) hold the same three
  passes, statement for statement: collect the fields with their names and indexes,
  give an index to the fields that still hold their default one, sort by index.
\<close>

record 'x fieldInfo =
  Index :: int
  Name :: string
  Field :: "'x StructField"
  Index0 :: nat

text \<open>\<open>Index0\<close> is \<^verbatim>\<open>Field.Index[0]\<close>, the position of the field in the struct.\<close>

text \<open>The loop over \<^verbatim>\<open>tagParts[1:]\<close>: the state is \<^verbatim>\<open>(index, maxIndex)\<close>.\<close>

fun tagIndexes :: "string \<Rightarrow> string list \<Rightarrow> int \<times> int \<Rightarrow> error + int \<times> int" where
  "tagIndexes fname [] st = Inr st"
| "tagIndexes fname (part # parts) (index, maxIndex) =
     (let part = TrimSpace part in
      if HasPrefix part ''index='' then
        (let idxStr = TrimPrefix part ''index='' in
         case Atoi idxStr of
           Inl err \<Rightarrow> Inl (InvalidIndex idxStr fname err)
         | Inr idx \<Rightarrow> tagIndexes fname parts (idx, if idx > maxIndex then idx else maxIndex))
      else tagIndexes fname parts (index, maxIndex))"

text \<open>The first pass, from position \<open>i\<close> on; \<open>acc\<close> is the slice \<^verbatim>\<open>fields\<close> so far.\<close>

fun collectFields ::
  "nat \<Rightarrow> 'x StructField list \<Rightarrow> 'x fieldInfo list \<Rightarrow> int \<Rightarrow> error + 'x fieldInfo list \<times> int" where
  "collectFields i [] acc maxIndex = Inr (acc, maxIndex)"
| "collectFields i (field # rest) acc maxIndex =
     (let csvTag = sfTag field in
      if csvTag = ''-'' then collectFields (Suc i) rest acc maxIndex
      else
        (let tagParts = Split csvTag;
             name = (if tagParts \<noteq> [] \<and> hd tagParts \<noteq> [] then hd tagParts else sfName field)
         in case tagIndexes (sfName field) (tl tagParts) (int i, maxIndex) of
              Inl err \<Rightarrow> Inl err
            | Inr (index, maxIndex') \<Rightarrow>
                collectFields (Suc i) rest
                  (acc @ [\<lparr>Index = index, Name = name, Field = field, Index0 = i\<rparr>]) maxIndex'))"

text \<open>The second pass: a field whose index equals its position gets \<^verbatim>\<open>nextIndex\<close>.\<close>

fun assignIndexes :: "'x fieldInfo list \<Rightarrow> int \<Rightarrow> 'x fieldInfo list" where
  "assignIndexes [] nextIndex = []"
| "assignIndexes (fi # fis) nextIndex =
     (if Index fi = int (Index0 fi)
      then fi\<lparr>Index := nextIndex\<rparr> # assignIndexes fis (wrapInt 64 (nextIndex + 1))
      else fi # assignIndexes fis nextIndex)"

text \<open>
  The third pass is \<^verbatim>\<open>sort.Slice\<close> with \<^verbatim>\<open>Index\<close> as the key. It is modelled by the
  insertion sort \<^const>\<open>sort_key\<close>, which is what \<^verbatim>\<open>sort.Slice\<close> runs on a slice of at
  most twelve elements; on a longer slice with equal indexes Go promises no order
  among the equal ones.
\<close>

definition resolveFields :: "'x rtype \<Rightarrow> error + 'x fieldInfo list" where
  "resolveFields T =
     (case T of
        NonStructT \<Rightarrow> Inl NotAStruct
      | StructT tfields \<Rightarrow>
          (case collectFields 0 tfields [] (- 1) of
             Inl err \<Rightarrow> Inl err
           | Inr (fis, maxIndex) \<Rightarrow>
               Inr (sort_key Index (assignIndexes fis (wrapInt 64 (maxIndex + 1))))))"

definition createFieldInfo :: "'x rtype \<Rightarrow> error + 'x fieldInfo list" where
  "createFieldInfo T = resolveFields T"

section \<open>The Value Codec: setFieldValue and getFieldStringValue\<close>

text \<open>
  A \<^verbatim>\<open>reflect.Value\<close> that stands for a struct field: its type, the value it holds,
  and the two flags the codec asks about. \<open>addressable\<close> holds for a field of a
  variable reached through a pointer; \<open>readOnly\<close> holds for a value obtained through
  an unexported field.
\<close>

record 'x rvalue =
  vType :: "'x gotype"
  vVal :: "'x val"
  addressable :: bool
  readOnly :: bool

definition CanAddr :: "'x rvalue \<Rightarrow> bool" where
  "CanAddr v = addressable v"

definition CanSet :: "'x rvalue \<Rightarrow> bool" where
  "CanSet v = (addressable v \<and> \<not> readOnly v)"

definition CanInterface :: "'x rvalue \<Rightarrow> bool" where
  "CanInterface v = (\<not> readOnly v)"

text \<open>\<^verbatim>\<open>Type().Implements(i)\<close> for the one-method interface whose method is \<open>m\<close>, and
  the same question for the pointer type, \<^verbatim>\<open>Addr().Type().Implements(i)\<close>.\<close>

definition implementsT :: "('v, 'p) gomethod \<Rightarrow> bool" where
  "implementsT m = (case m of ValueRecv h \<Rightarrow> True | _ \<Rightarrow> False)"

definition implementsPtr :: "('v, 'p) gomethod \<Rightarrow> bool" where
  "implementsPtr m = (case m of NoMethod \<Rightarrow> False | _ \<Rightarrow> True)"

definition callUnmarshal ::
  "('x val \<Rightarrow> string \<Rightarrow> error option, 'x val \<Rightarrow> string \<Rightarrow> error + 'x val) gomethod
   \<Rightarrow> 'x val \<Rightarrow> string \<Rightarrow> error + 'x val" where
  "callUnmarshal m v s =
     (case m of
        ValueRecv h \<Rightarrow> (case h v s of None \<Rightarrow> Inr v | Some e \<Rightarrow> Inl e)
      | PtrRecv h \<Rightarrow> h v s
      | NoMethod \<Rightarrow> Inl (ReflectPanic ''interface conversion''))"

definition callMarshal ::
  "('x val \<Rightarrow> error + string, 'x val \<Rightarrow> error + string) gomethod \<Rightarrow> 'x val \<Rightarrow> error + string" where
  "callMarshal m v =
     (case m of
        ValueRecv h \<Rightarrow> h v
      | PtrRecv h \<Rightarrow> h v
      | NoMethod \<Rightarrow> Inl (ReflectPanic ''interface conversion''))"

text \<open>\<^verbatim>\<open>Set\<close>, \<^verbatim>\<open>SetString\<close>, \<^verbatim>\<open>SetInt\<close>, \<^verbatim>\<open>SetFloat\<close> and \<^verbatim>\<open>SetBool\<close> panic on a value
  that cannot be set.\<close>

definition setTo :: "'x rvalue \<Rightarrow> 'x val \<Rightarrow> error + 'x val" where
  "setTo field v =
     (if CanSet field then Inr v
      else Inl (ReflectPanic ''reflect: Set using unaddressable or unexported value''))"

definition signedKinds :: "kind list" where
  "signedKinds = [KInt, KInt8, KInt16, KInt32, KInt64]"

definition unsignedKinds :: "kind list" where
  "unsignedKinds = [KUint, KUint8, KUint16, KUint32, KUint64]"

definition floatKinds :: "kind list" where
  "floatKinds = [KFloat32, KFloat64]"

definition intBits :: "kind \<Rightarrow> nat" where
  "intBits k = (if k = KInt8 then 8 else if k = KInt16 then 16 else if k = KInt32 then 32 else 64)"

definition setFieldValue :: "'x stdlib \<Rightarrow> 'x rvalue \<Rightarrow> string \<Rightarrow> error + 'x val" where
  "setFieldValue L field value =
     (if CanInterface field \<and> implementsT (UnmarshalCSV (vType field)) then
        callUnmarshal (UnmarshalCSV (vType field)) (vVal field) value
      else if CanAddr field \<and> CanInterface field \<and> implementsPtr (UnmarshalCSV (vType field)) then
        callUnmarshal (UnmarshalCSV (vType field)) (vVal field) value
      else if isTimeTime (vType field) then
        (case ParseTime L value of
           Inl err \<Rightarrow> Inl err
         | Inr t \<Rightarrow> setTo field (VTime t))
      else if typeKind (vType field) = KString then
        setTo field (VString value)
      else if typeKind (vType field) \<in> set signedKinds then
        (case ParseInt value of
           Inl err \<Rightarrow> Inl err
         | Inr intValue \<Rightarrow> setTo field (VInt (wrapInt (intBits (typeKind (vType field))) intValue)))
      else if typeKind (vType field) \<in> set floatKinds then
        (case ParseFloat L value of
           Inl err \<Rightarrow> Inl err
         | Inr floatValue \<Rightarrow>
             setTo field (VFloat (if typeKind (vType field) = KFloat32
                                  then toFloat32 L floatValue else floatValue)))
      else if typeKind (vType field) = KBool then
        (case ParseBool value of
           Inl err \<Rightarrow> Inl err
         | Inr boolValue \<Rightarrow> setTo field (VBool boolValue))
      else Inl (UnsupportedFieldType (typeName (vType field))))"

text \<open>
  The readers \<^verbatim>\<open>String\<close>, \<^verbatim>\<open>Int\<close>, \<^verbatim>\<open>Uint\<close>, \<^verbatim>\<open>Float\<close>, \<^verbatim>\<open>Bool\<close> of a
  \<^verbatim>\<open>reflect.Value\<close>. In Go the value of a field always fits the kind of its type; the
  model answers a value that does not fit with the panic of package reflect.
\<close>

definition kindMismatch :: "error" where
  "kindMismatch = ReflectPanic ''reflect: call of Value method on a value of another kind''"

definition getFieldStringValue :: "'x stdlib \<Rightarrow> 'x rvalue \<Rightarrow> error + string" where
  "getFieldStringValue L field =
     (if CanInterface field \<and> implementsT (MarshalCSV (vType field)) then
        callMarshal (MarshalCSV (vType field)) (vVal field)
      else if CanAddr field \<and> CanInterface field \<and> implementsPtr (MarshalCSV (vType field)) then
        callMarshal (MarshalCSV (vType field)) (vVal field)
      else if isTimeTime (vType field) then
        (if CanInterface field then
           (case vVal field of VTime t \<Rightarrow> Inr (FormatTime L t) | _ \<Rightarrow> Inl kindMismatch)
         else Inl (ReflectPanic ''reflect.Value.Interface: cannot return value obtained from unexported field or method''))
      else if typeKind (vType field) = KString then
        (case vVal field of VString s \<Rightarrow> Inr s | _ \<Rightarrow> Inl kindMismatch)
      else if typeKind (vType field) \<in> set signedKinds then
        (case vVal field of VInt i \<Rightarrow> Inr (FormatInt i) | _ \<Rightarrow> Inl kindMismatch)
      else if typeKind (vType field) \<in> set unsignedKinds then
        (case vVal field of VUint n \<Rightarrow> Inr (FormatUint n) | _ \<Rightarrow> Inl kindMismatch)
      else if typeKind (vType field) \<in> set floatKinds then
        (case vVal field of VFloat x \<Rightarrow> Inr (FormatFloat L x) | _ \<Rightarrow> Inl kindMismatch)
      else if typeKind (vType field) = KBool then
        (case vVal field of VBool b \<Rightarrow> Inr (FormatBool b) | _ \<Rightarrow> Inl kindMismatch)
      else Inl (UnsupportedFieldType (typeName (vType field))))"

section \<open>Struct values\<close>

text \<open>A value of the struct type \<^verbatim>\<open>T\<close> maps the names of its fields to their values;
  \<^verbatim>\<open>FieldByName\<close> is the lookup.\<close>

type_synonym 'x struct = "string \<rightharpoonup> 'x val"

definition zeroValue :: "'x stdlib \<Rightarrow> 'x gotype \<Rightarrow> 'x val" where
  "zeroValue L ty =
     (if isTimeTime ty then VTime (zeroTime L)
      else if typeKind ty = KString then VString []
      else if typeKind ty \<in> set signedKinds then VInt 0
      else if typeKind ty \<in> set unsignedKinds then VUint 0
      else if typeKind ty \<in> set floatKinds then VFloat (zeroFloat L)
      else if typeKind ty = KBool then VBool False
      else VOther (zeroOther ty))"

text \<open>\<^verbatim>\<open>var t T\<close>: every field at the zero value of its type.\<close>

definition zeroStruct :: "'x stdlib \<Rightarrow> 'x rtype \<Rightarrow> 'x struct" where
  "zeroStruct L T =
     (case T of
        StructT tfields \<Rightarrow> map_of (map (\<lambda>f. (sfName f, zeroValue L (sfType f))) tfields)
      | NonStructT \<Rightarrow> Map.empty)"

section \<open>The row source: encoding/csv as csv.NewReader configures it\<close>

text \<open>
  \<^verbatim>\<open>encoding/csv\<close> is the Go standard library, not code of the package. The package
  only calls \<^verbatim>\<open>csv.NewReader(r)\<close> and \<^verbatim>\<open>Read()\<close>, and its tests rely on two things
  \<^verbatim>\<open>Read\<close> does by itself, which are modelled here from the library's documentation:
  a line without any field (an empty line) is skipped, and, \<^verbatim>\<open>FieldsPerRecord\<close> being
  left at 0 by \<^verbatim>\<open>csv.NewReader\<close>, the first record read fixes the number of fields,
  after which a record of another length is returned together with \<^verbatim>\<open>ErrFieldCount\<close>.
  Quoting and the splitting of bytes into lines and fields are not modelled: the input
  is the list of lines, each already split into its fields, or malformed.
  \<^verbatim>\<open>Fields []\<close> is the empty line.
\<close>

datatype line = Fields "string list" | Malformed string

record csvReader =
  lines :: "line list"
  FieldsPerRecord :: nat

text \<open>\<^verbatim>\<open>Read\<close> returns the record and the error, and moves on in the input.\<close>

fun readRecord :: "nat \<Rightarrow> line list \<Rightarrow> (string list \<times> error option) \<times> nat \<times> line list" where
  "readRecord fpr [] = (([], Some EOF), fpr, [])"
| "readRecord fpr (Malformed m # rest) = (([], Some (ParseError m)), fpr, rest)"
| "readRecord fpr (Fields [] # rest) = readRecord fpr rest"
| "readRecord fpr (Fields (c # cs) # rest) =
     (if fpr > 0 then
        (if length (c # cs) \<noteq> fpr then ((c # cs, Some ErrFieldCount), fpr, rest)
         else ((c # cs, None), fpr, rest))
      else ((c # cs, None), length (c # cs), rest))"

definition csvRead :: "csvReader \<Rightarrow> (string list \<times> error option) \<times> csvReader" where
  "csvRead r =
     (case readRecord (FieldsPerRecord r) (lines r) of
        (res, fpr, rest) \<Rightarrow> (res, \<lparr>lines = rest, FieldsPerRecord = fpr\<rparr>))"

section \<open>The Reader\<close>

record 'x Reader =
  reader :: csvReader
  headers :: "string list"
  fieldMap :: "nat \<rightharpoonup> 'x StructField"
  err :: "error option"
  current :: "'x struct"

text \<open>\<^verbatim>\<open>headerMap\<close>: the trimmed header names to their column indexes; a later column
  of the same name replaces an earlier one.\<close>

definition headerMap :: "string list \<Rightarrow> string \<rightharpoonup> nat" where
  "headerMap hs = foldl (\<lambda>m ih. m(TrimSpace (snd ih) \<mapsto> fst ih)) Map.empty (enumerate 0 hs)"

definition createFieldMap :: "'x rtype \<Rightarrow> string list \<Rightarrow> error + (nat \<rightharpoonup> 'x StructField)" where
  "createFieldMap T hs =
     (case resolveFields T of
        Inl e \<Rightarrow> Inl e
      | Inr fis \<Rightarrow>
          Inr (foldl (\<lambda>fm fi. case headerMap hs (Name fi) of
                                 Some idx \<Rightarrow> fm(idx \<mapsto> Field fi)
                               | None \<Rightarrow> fm)
                 Map.empty fis))"

text \<open>\<^verbatim>\<open>NewReader\<close> on the input \<open>input\<close>: the first record read is the header.\<close>

definition NewReader :: "'x stdlib \<Rightarrow> 'x rtype \<Rightarrow> line list \<Rightarrow> error + 'x Reader" where
  "NewReader L T input =
     (case csvRead \<lparr>lines = input, FieldsPerRecord = 0\<rparr> of
        ((hs, Some e), r) \<Rightarrow> Inl e
      | ((hs, None), r) \<Rightarrow>
          (case createFieldMap T hs of
             Inl e \<Rightarrow> Inl e
           | Inr fm \<Rightarrow>
               Inr \<lparr>reader = r, headers = hs, fieldMap = fm, err = None,
                    current = zeroStruct L T\<rparr>))"

text \<open>
  The loop of \<^verbatim>\<open>nextRow\<close> over the cells of a record, from the struct \<open>t\<close> so far.
  \<^verbatim>\<open>FieldByName\<close> on the variable \<open>t\<close> gives an addressable value, read-only when the
  field is unexported; a name that is no field of \<open>t\<close> gives the zero
  \<^verbatim>\<open>reflect.Value\<close>, which cannot be set.
\<close>

fun decodeRow ::
  "'x stdlib \<Rightarrow> (nat \<rightharpoonup> 'x StructField) \<Rightarrow> 'x struct \<Rightarrow> (nat \<times> string) list \<Rightarrow> error + 'x struct" where
  "decodeRow L fm t [] = Inr t"
| "decodeRow L fm t ((idx, value) # rest) =
     (case fm idx of
        None \<Rightarrow> decodeRow L fm t rest
      | Some field \<Rightarrow>
          (case t (sfName field) of
             None \<Rightarrow> decodeRow L fm t rest
           | Some v \<Rightarrow>
               (let fieldValue = \<lparr>vType = sfType field, vVal = v, addressable = True,
                                  readOnly = (\<not> isExported (sfName field))\<rparr>
                in if \<not> CanSet fieldValue then decodeRow L fm t rest
                   else (case setFieldValue L fieldValue value of
                           Inl e \<Rightarrow> Inl (SetFieldError (sfName field) e)
                         | Inr v' \<Rightarrow> decodeRow L fm (t(sfName field \<mapsto> v')) rest))))"

definition nextRow :: "'x stdlib \<Rightarrow> 'x rtype \<Rightarrow> 'x Reader \<Rightarrow> bool \<times> 'x Reader" where
  "nextRow L T rb =
     (case csvRead (reader rb) of
        ((record, Some e), r) \<Rightarrow>
          (if e = EOF then (False, rb\<lparr>reader := r\<rparr>)
           else (False, rb\<lparr>reader := r, err := Some e\<rparr>))
      | ((record, None), r) \<Rightarrow>
          (case decodeRow L (fieldMap rb) (zeroStruct L T) (enumerate 0 record) of
             Inl e \<Rightarrow> (False, rb\<lparr>reader := r, err := Some e\<rparr>)
           | Inr t \<Rightarrow> (True, rb\<lparr>reader := r, current := t\<rparr>)))"

lemma readRecord_length: "length (snd (snd (readRecord fpr ls))) \<le> length ls"
  by (induction fpr ls rule: readRecord.induct) auto

lemma readRecord_row_shorter:
  "readRecord fpr ls = ((record, None), fpr', rest) \<Longrightarrow> length rest < length ls"
proof (induction fpr ls rule: readRecord.induct)
  case (3 fpr rest')
  then show ?case by fastforce
qed (auto split: if_splits)

lemma nextRow_shorter:
  "nextRow L T rb = (True, rb') \<Longrightarrow> length (lines (reader rb')) < length (lines (reader rb))"
  by (auto simp: nextRow_def csvRead_def split: prod.splits option.splits if_splits sum.splits
           dest: readRecord_row_shorter)

text \<open>
  \<^verbatim>\<open>All\<close>: the sequence, run against a consumer. The consumer is the \<^verbatim>\<open>yield\<close>
  callback with its own state \<open>s\<close>: it takes a record and answers whether it wants
  more. The run returns normally or panics with \<^verbatim>\<open>rb.err\<close>.
\<close>

datatype outcome = Returned | Panicked error

function All ::
  "'x stdlib \<Rightarrow> 'x rtype \<Rightarrow> ('s \<Rightarrow> 'x struct \<Rightarrow> bool \<times> 's) \<Rightarrow> 's \<Rightarrow> 'x Reader
   \<Rightarrow> outcome \<times> 's \<times> 'x Reader" where
  "All L T yield s rb =
     (case nextRow L T rb of
        (True, rb') \<Rightarrow>
          (case yield s (current rb') of
             (True, s') \<Rightarrow> All L T yield s' rb'
           | (False, s') \<Rightarrow> (Returned, s', rb'))
      | (False, rb') \<Rightarrow>
          (case err rb' of
             None \<Rightarrow> (Returned, s, rb')
           | Some e \<Rightarrow> if e \<noteq> EOF then (Panicked e, s, rb') else (Returned, s, rb')))"
  by pat_completeness auto
termination
  by (relation "measure (\<lambda>(L, T, yield, s, rb). length (lines (reader rb)))")
     (auto dest: nextRow_shorter [OF sym])

declare All.simps [simp del]

text \<open>\<^verbatim>\<open>slices.Collect(rb.All())\<close>: the consumer that takes every record.\<close>

definition Collect :: "'x stdlib \<Rightarrow> 'x rtype \<Rightarrow> 'x Reader \<Rightarrow> outcome \<times> 'x struct list \<times> 'x Reader" where
  "Collect L T rb = All L T (\<lambda>acc r. (True, acc @ [r])) [] rb"

section \<open>The Writer\<close>

text \<open>
  The sink under the \<^verbatim>\<open>csv.Writer\<close>: the rows written and the flushes, in order.
  Whether a write fails is the decision of the underlying \<^verbatim>\<open>io.Writer\<close>;
  \<open>sinkFails\<close> stands for it.
\<close>

datatype event = Row "string list" | Flush

record csvWriter =
  written :: "event list"
  sinkFails :: "event list \<Rightarrow> string list \<Rightarrow> error option"

definition csvWrite :: "csvWriter \<Rightarrow> string list \<Rightarrow> error + csvWriter" where
  "csvWrite w row =
     (case sinkFails w (written w) row of
        Some e \<Rightarrow> Inl e
      | None \<Rightarrow> Inr (w\<lparr>written := written w @ [Row row]\<rparr>))"

definition csvFlush :: "csvWriter \<Rightarrow> csvWriter" where
  "csvFlush w = w\<lparr>written := written w @ [Flush]\<rparr>"

record 'x Writer =
  writer :: csvWriter
  wfields :: "'x fieldInfo list"
  writeHeaderOnce :: bool

definition NewWriter :: "'x rtype \<Rightarrow> csvWriter \<Rightarrow> error + 'x Writer" where
  "NewWriter T w =
     (case createFieldInfo T of
        Inl e \<Rightarrow> Inl e
      | Inr fis \<Rightarrow> Inr \<lparr>writer = w, wfields = fis, writeHeaderOnce = False\<rparr>)"

text \<open>
  The loop of \<^verbatim>\<open>Write\<close> over \<^verbatim>\<open>rw.fields\<close>. \<^verbatim>\<open>reflect.ValueOf(record)\<close> is a copy of
  the record, so the values \<^verbatim>\<open>FieldByName\<close> gives are not addressable.
\<close>

fun encodeRow :: "'x stdlib \<Rightarrow> 'x struct \<Rightarrow> 'x fieldInfo list \<Rightarrow> error + string list" where
  "encodeRow L record [] = Inr []"
| "encodeRow L record (fi # fis) =
     (case record (sfName (Field fi)) of
        None \<Rightarrow> Inl (ReflectPanic ''reflect: call of reflect.Value.Type on zero Value'')
      | Some v \<Rightarrow>
          (case getFieldStringValue L
                  \<lparr>vType = sfType (Field fi), vVal = v, addressable = False,
                   readOnly = (\<not> isExported (sfName (Field fi)))\<rparr> of
             Inl (ReflectPanic m) \<Rightarrow> Inl (ReflectPanic m)
           | Inl e \<Rightarrow> Inl (MarshalFieldError (sfName (Field fi)) e)
           | Inr strValue \<Rightarrow>
               (case encodeRow L record fis of
                  Inl e \<Rightarrow> Inl e
                | Inr strValues \<Rightarrow> Inr (strValue # strValues))))"

text \<open>\<^verbatim>\<open>Write\<close> returns the error, or nil, and leaves the Writer changed.\<close>

definition writeHeader :: "'x Writer \<Rightarrow> error + 'x Writer" where
  "writeHeader rw =
     (if \<not> writeHeaderOnce rw then
        (case csvWrite (writer rw) (map Name (wfields rw)) of
           Inl e \<Rightarrow> Inl e
         | Inr w \<Rightarrow> Inr (rw\<lparr>writer := csvFlush w, writeHeaderOnce := True\<rparr>))
      else Inr rw)"

definition Write :: "'x stdlib \<Rightarrow> 'x Writer \<Rightarrow> 'x struct \<Rightarrow> error option \<times> 'x Writer" where
  "Write L rw record =
     (case writeHeader rw of
        Inl e \<Rightarrow> (Some e, rw)
      | Inr rw1 \<Rightarrow>
          (case encodeRow L record (wfields rw1) of
             Inl e \<Rightarrow> (Some e, rw1)
           | Inr recordValues \<Rightarrow>
               (case csvWrite (writer rw1) recordValues of
                  Inl e \<Rightarrow> (Some e, rw1)
                | Inr w \<Rightarrow> (None, rw1\<lparr>writer := csvFlush w\<rparr>))))"

text \<open>\<^verbatim>\<open>WriteAll\<close> over the records of a sequence, given as a list: it stops at the
  first error.\<close>

fun WriteAll :: "'x stdlib \<Rightarrow> 'x Writer \<Rightarrow> 'x struct list \<Rightarrow> error option \<times> 'x Writer" where
  "WriteAll L rw [] = (None, rw)"
| "WriteAll L rw (record # records) =
     (case Write L rw record of
        (Some e, rw') \<Rightarrow> (Some e, rw')
      | (None, rw') \<Rightarrow> WriteAll L rw' records)"

section \<open>The record types of the package's tests and examples\<close>

text \<open>A library for the examples: they hold no floating point number and no time, so
  its functions are never reached.\<close>

definition exampleLib :: "unit stdlib" where
  "exampleLib =
     \<lparr>ParseFloat = (\<lambda>s. Inl (LibError s)), FormatFloat = (\<lambda>x. []), toFloat32 = (\<lambda>x. x),
      ParseTime = (\<lambda>s. Inl (LibError s)), FormatTime = (\<lambda>x. []),
      zeroFloat = (), zeroTime = ()\<rparr>"

text \<open>A predeclared type: no methods.\<close>

definition builtinType :: "string \<Rightarrow> kind \<Rightarrow> unit gotype" where
  "builtinType n k =
     \<lparr>typeName = n, typeKind = k, UnmarshalCSV = NoMethod, MarshalCSV = NoMethod,
      zeroOther = ()\<rparr>"

definition field :: "string \<Rightarrow> string \<Rightarrow> unit gotype \<Rightarrow> unit StructField" where
  "field n tag ty = \<lparr>sfName = n, sfTag = tag, sfType = ty\<rparr>"

text \<open>\<^verbatim>\<open>Person\<close> of the tests: \<^verbatim>\<open>Name string `csv:"Name"`\<close>, \<^verbatim>\<open>Email string `csv:"Email"`\<close>,
  \<^verbatim>\<open>Age int `csv:"Age"`\<close>.\<close>

definition Person :: "unit rtype" where
  "Person = StructT [field ''Name'' ''Name'' (builtinType ''string'' KString),
                     field ''Email'' ''Email'' (builtinType ''string'' KString),
                     field ''Age'' ''Age'' (builtinType ''int'' KInt)]"

definition person :: "string \<Rightarrow> string \<Rightarrow> int \<Rightarrow> unit struct" where
  "person n e a = [''Name'' \<mapsto> VString n, ''Email'' \<mapsto> VString e, ''Age'' \<mapsto> VInt a]"

text \<open>A struct whose first field repeats its own position as its explicit index:
  \<^verbatim>\<open>A string `csv:"A,index=0"`\<close>, \<^verbatim>\<open>B string `csv:"B"`\<close>, \<^verbatim>\<open>C string `csv:"C,index=1"`\<close>.\<close>

definition OwnPosition :: "unit rtype" where
  "OwnPosition = StructT [field ''A'' ''A,index=0'' (builtinType ''string'' KString),
                          field ''B'' ''B'' (builtinType ''string'' KString),
                          field ''C'' ''C,index=1'' (builtinType ''string'' KString)]"

text \<open>The example of the specification: \<^verbatim>\<open>[A(index=1), B, C(index=0), D]\<close>.\<close>

definition SpecExample :: "unit rtype" where
  "SpecExample = StructT [field ''A'' ''A,index=1'' (builtinType ''string'' KString),
                          field ''B'' ''B'' (builtinType ''string'' KString),
                          field ''C'' ''C,index=0'' (builtinType ''string'' KString),
                          field ''D'' [] (builtinType ''string'' KString)]"

section \<open>The field order of the resolver\<close>

lemmas resolver_eval =
  createFieldInfo_def resolveFields_def TrimSpace_def isSpace_def HasPrefix_def
  TrimPrefix_def Atoi_def parseInt64_def digitVal_def wrapInt_def Let_def field_def
  builtinType_def

text \<open>The example of the specification resolves as it says: \<^verbatim>\<open>C(0), A(1), B(2), D(3)\<close>.\<close>

lemma spec_example_order:
  "map_sum id (map (\<lambda>fi. (Name fi, Index fi))) (createFieldInfo SpecExample)
   = Inr [(''C'', 0), (''A'', 1), (''B'', 2), (''D'', 3)]"
  by (simp add: SpecExample_def resolver_eval)

text \<open>
  C1. Fields with an explicit \<^verbatim>\<open>index=N\<close> are placed at ordinal \<open>N\<close>, and the fields
  without one get increasing ordinals from the highest explicit one plus 1, also when an
  explicit index equals the field's own declaration position. The code does not do this:
  the second pass takes every field whose index equals its position for a field without
  an explicit index. In \<^verbatim>\<open>OwnPosition\<close> the field \<^verbatim>\<open>A\<close> asks for index 0 at position 0;
  it is renumbered to 2, \<^verbatim>\<open>B\<close> gets 3, and the resolved order is \<^verbatim>\<open>C(1), A(2), B(3)\<close>
  where the claim says \<^verbatim>\<open>A(0), C(1), B(2)\<close>.
\<close>

theorem explicit_index_at_own_position_renumbered:
  "map_sum id (map (\<lambda>fi. (Name fi, Index fi))) (createFieldInfo OwnPosition)
   = Inr [(''C'', 1), (''A'', 2), (''B'', 3)]"
  by (simp add: OwnPosition_def resolver_eval)

section \<open>Unsigned integer fields\<close>

lemma unsigned_not_time: "typeKind ty \<in> set unsignedKinds \<Longrightarrow> \<not> isTimeTime ty"
  by (auto simp: unsignedKinds_def isTimeTime_def)

text \<open>
  C10. A field of an unsigned integer kind whose type has no custom hook is encoded by
  the Writer as its base-10 text, and no cell is ever decoded into it: the Reader's
  decoder answers every cell with the unsupported-field-type error.
\<close>

theorem unsigned_encodes_but_never_decodes:
  assumes "typeKind (vType fv) \<in> set unsignedKinds"
    and "UnmarshalCSV (vType fv) = NoMethod" and "MarshalCSV (vType fv) = NoMethod"
    and "vVal fv = VUint n"
  shows "getFieldStringValue L fv = Inr (FormatUint n)
       \<and> setFieldValue L fv cell = Inl (UnsupportedFieldType (typeName (vType fv)))"
  using assms unsigned_not_time [OF assms(1)]
  by (auto simp: getFieldStringValue_def setFieldValue_def implementsT_def implementsPtr_def
      unsignedKinds_def signedKinds_def floatKinds_def)

theorem unsigned_encodes_but_never_decodes_witness:
  "getFieldStringValue exampleLib
     \<lparr>vType = builtinType ''uint8'' KUint8, vVal = VUint 200, addressable = False,
      readOnly = False\<rparr> = Inr ''200''
   \<and> setFieldValue exampleLib
     \<lparr>vType = builtinType ''uint8'' KUint8, vVal = VUint 0, addressable = True,
      readOnly = False\<rparr> ''200'' = Inl (UnsupportedFieldType ''uint8'')"
  using
    unsigned_encodes_but_never_decodes
      [of "\<lparr>vType = builtinType ''uint8'' KUint8, vVal = VUint 200, addressable = False,
            readOnly = False\<rparr>" 200 exampleLib "''200''"]
    unsigned_encodes_but_never_decodes
      [of "\<lparr>vType = builtinType ''uint8'' KUint8, vVal = VUint 0, addressable = True,
            readOnly = False\<rparr>" 0 exampleLib "''200''"]
  by (simp add: builtinType_def unsignedKinds_def FormatUint_def digitsOf.simps digitChar_def)

end
